theory Spec2Isabelle
  imports Main
begin

section \<open>Data model of the playback session (utils/music/models.py)\<close>

text \<open>
  A track is either a \<^verbatim>\<open>PartialTrack\<close> or a \<^verbatim>\<open>LavalinkTrack\<close>; both expose the
  same properties over their \<^verbatim>\<open>info\<close> dictionary.  The fields below are the entries the
  session logic reads or writes.  Python's truthiness tests on strings
  (\<^verbatim>\<open>not track.id\<close>, \<^verbatim>\<open>track.ytid and ...\<close>) become tests against the empty string.
  The field \<open>track_id\<close> is the attribute \<^verbatim>\<open>id\<close> of the source.
\<close>

record track =
  track_id :: string
  is_partial :: bool
  uri :: string
  ytid :: string
  sourceName :: string
  sourceNameOrig :: string
  temp_id :: string
  duration :: int
  is_stream :: bool
  track_loops :: int
  autoplay :: bool
  related :: string

text \<open>The attribute \<^verbatim>\<open>loop\<close> of the player is \<^verbatim>\<open>False\<close>, \<^verbatim>\<open>"current"\<close> or \<^verbatim>\<open>"queue"\<close>.\<close>

datatype loop_mode = LoopOff | LoopCurrent | LoopQueue

text \<open>
  Calls to the collaborators (rendering node, chat platform, background tasks) are
  recorded, in order, in the list \<open>effects\<close> of the session state; \<open>Sleep\<close> carries
  milliseconds.  An exception that leaves the handler is recorded as \<open>Raise\<close>.
\<close>

datatype effect =
    Play track int string
  | Stop
  | Connect nat
  | Destroy
  | ChangeNode string
  | WaitForNewNode "string option"
  | StartIdle
  | InvokeNP
  | SendReport
  | SendMessage
  | Sleep nat
  | Raise

text \<open>The dictionaries \<^verbatim>\<open>retries_403\<close> and \<^verbatim>\<open>retries_general_errors\<close>, created on demand.\<close>

record retries_403_t =
  last_time_403 :: "int option"
  counter_403 :: int

record retries_general_t =
  counter_gen :: int
  last_node_gen :: string
  last_time_gen :: int

text \<open>
  The session (\<^verbatim>\<open>LavalinkPlayer\<close>).  The player attribute \<^verbatim>\<open>autoplay\<close> is the field
  \<open>autoplay_mode\<close> (the track property keeps the name).  \<open>node\<close> is the identifier
  of the bound rendering node, \<open>last_channel\<close> the id of the last voice channel.
  Times are integral milliseconds.
\<close>

record player =
  current :: "track option"
  last_track :: "track option"
  queue :: "track list"
  played :: "track list"
  queue_autoplay :: "track list"
  failed_tracks :: "track list"
  loop :: loop_mode
  locked :: bool
  is_closing :: bool
  is_previows_music :: bool
  auto_pause :: bool
  paused :: bool
  autoplay_mode :: bool
  keep_connected :: bool
  native_yt :: bool
  controller_mode :: bool
  last_position :: int
  last_update :: int
  node :: string
  last_channel :: "nat option"
  update :: bool
  ignore_np_once :: bool
  idle_task :: bool
  retries_403 :: "retries_403_t option"
  retries_general_errors :: "retries_general_t option"
  lock_clears :: nat
  effects :: "effect list"

subsection \<open>Bounded deques\<close>

text \<open>
  \<^verbatim>\<open>deque(maxlen=n)\<close>: appending to a full deque discards items from the left.
  \<^verbatim>\<open>deque.insert(i, x)\<close> inserts before index \<open>i\<close>, at the end when \<open>i\<close> is past it.
\<close>

definition deque_extend :: "nat \<Rightarrow> 'a list \<Rightarrow> 'a list \<Rightarrow> 'a list" where
  "deque_extend maxlen xs ys = (let zs = xs @ ys in drop (length zs - maxlen) zs)"

definition deque_append :: "nat \<Rightarrow> 'a list \<Rightarrow> 'a \<Rightarrow> 'a list" where
  "deque_append maxlen xs x = deque_extend maxlen xs [x]"

definition deque_insert :: "nat \<Rightarrow> 'a \<Rightarrow> 'a list \<Rightarrow> 'a list" where
  "deque_insert i x xs = take i xs @ x # drop i xs"

fun startswith :: "string \<Rightarrow> string \<Rightarrow> bool" where
  "startswith s [] = True"
| "startswith [] (c # cs) = False"
| "startswith (d # s) (c # cs) = (d = c \<and> startswith s cs)"

definition startswith_any :: "string \<Rightarrow> string list \<Rightarrow> bool" where
  "startswith_any s ps = list_ex (startswith s) ps"

definition log_effect :: "effect \<Rightarrow> player \<Rightarrow> player" where
  "log_effect e p = p\<lparr>effects := effects p @ [e]\<rparr>"

text \<open>
  \<^verbatim>\<open>LavalinkPlayer.connect\<close>: the channel looked up by its id becomes the last channel,
  then the voice connection is requested.
\<close>

definition connect :: "nat \<Rightarrow> player \<Rightarrow> player" where
  "connect channel_id p = log_effect (Connect channel_id) (p\<lparr>last_channel := Some channel_id\<rparr>)"

text \<open>
  The assignment \<^verbatim>\<open>self.locked = False\<close>.  The field \<open>lock_clears\<close> is not an attribute
  of the player: it counts the executions of this assignment.
\<close>

abbreviation unlock :: "player \<Rightarrow> player" where
  "unlock p \<equiv> p\<lparr>locked := False, lock_clears := lock_clears p + 1\<rparr>"

subsection \<open>Derived playback position\<close>

text \<open>
  \<^verbatim>\<open>get_start_pos(player, track, extra_milliseconds)\<close>; \<open>now\<close> is
  \<^verbatim>\<open>utcnow().timestamp() * 1000\<close>.
\<close>

definition get_start_pos :: "int \<Rightarrow> player \<Rightarrow> track \<Rightarrow> int \<Rightarrow> int" where
  "get_start_pos now p t extra_milliseconds =
     (if \<not> is_stream t then
        (let difference = (now + extra_milliseconds) - last_update p;
             position = last_position p + difference
         in if 0 < position \<and> position < duration t then min position (duration t) else 0)
      else 0)"

text \<open>
  The property \<^verbatim>\<open>LavalinkPlayer.position\<close>; \<open>now\<close> is \<^verbatim>\<open>time() * 1000\<close> and
  \<open>is_playing\<close> the property of that name of the base class.
\<close>

definition position :: "int \<Rightarrow> bool \<Rightarrow> player \<Rightarrow> int" where
  "position now is_playing p =
     (case current p of
        None \<Rightarrow> 0
      | Some c \<Rightarrow>
          if \<not> is_playing then 0
          else if paused p \<and> \<not> auto_pause p then min (last_position p) (duration c)
          else
            (let difference = now - last_update p;
                 pos = last_position p + difference
             in if pos > duration c then 0 else min pos (duration c)))"

text \<open>The formula of the specification: the elapsed time clamped to the track.\<close>

definition clamp :: "int \<Rightarrow> int \<Rightarrow> int \<Rightarrow> int" where
  "clamp x lo hi = max lo (min x hi)"

definition spec_position :: "int \<Rightarrow> player \<Rightarrow> track \<Rightarrow> int" where
  "spec_position now p c = clamp (last_position p + (now - last_update p)) 0 (duration c)"

subsection \<open>End of a track\<close>

text \<open>
  \<^verbatim>\<open>LavalinkPlayer.track_end\<close>.  The loop counter is decremented on the track object,
  which is the one reinserted.
\<close>

definition track_end :: "player \<Rightarrow> player" where
  "track_end p0 =
     (let p = log_effect (Sleep 500) (p0\<lparr>locked := True\<rparr>);
          p' =
            (case last_track p of
               Some lt \<Rightarrow>
                 (let p1 = (if \<not> is_stream lt \<and> duration lt < 60000
                            then log_effect (Sleep 7000) p else p)
                  in if loop p1 = LoopCurrent then p1\<lparr>queue := lt # queue p1\<rparr>
                     else if is_previows_music p1
                       then p1\<lparr>queue := deque_insert 1 lt (queue p1), is_previows_music := False\<rparr>
                     else if track_loops lt \<noteq> 0
                       then (let lt' = lt\<lparr>track_loops := track_loops lt - 1\<rparr>
                             in p1\<lparr>last_track := Some lt', queue := deque_insert 0 lt' (queue p1)\<rparr>)
                     else if loop p1 = LoopQueue
                       then (if is_previows_music p1
                             then p1\<lparr>queue := deque_insert 1 lt (queue p1),
                                     is_previows_music := False\<rparr>
                             else p1\<lparr>queue := queue p1 @ [lt]\<rparr>)
                     else if \<not> autoplay lt
                       then p1\<lparr>played := deque_append 20 (played p1) lt\<rparr>
                     else p1)
             | None \<Rightarrow>
                 (if is_previows_music p then p\<lparr>is_previows_music := False\<rparr> else p))
      in unlock p')"

subsection \<open>Initial values\<close>

text \<open>
  \<^verbatim>\<open>PartialTrack.__init__\<close> with its default arguments, and the attributes set by
  \<^verbatim>\<open>LavalinkPlayer.__init__\<close> for a player bound to the node \<open>n\<close>.
\<close>

definition new_track :: "string \<Rightarrow> int \<Rightarrow> track" where
  "new_track u d =
     \<lparr>track_id = [], is_partial = True, uri = u, ytid = [], sourceName = [],
      sourceNameOrig = [], temp_id = [], duration = d, is_stream = False,
      track_loops = 0, autoplay = False, related = []\<rparr>"

definition new_player :: "string \<Rightarrow> player" where
  "new_player n =
     \<lparr>current = None, last_track = None, queue = [], played = [], queue_autoplay = [],
      failed_tracks = [], loop = LoopOff, locked = False, is_closing = False,
      is_previows_music = False, auto_pause = False, paused = False,
      autoplay_mode = False, keep_connected = False, native_yt = True,
      controller_mode = True, last_position = 0, last_update = 0, node = n,
      last_channel = None, update = False, ignore_np_once = False, idle_task = False,
      retries_403 = None, retries_general_errors = None, lock_clears = 0, effects = []\<rparr>"

section \<open>External collaborators\<close>

text \<open>
  What one invocation observes of its collaborators.  Each field stands for the answer
  of a call that the source awaits or of a value it reads from outside the session:

  \<^item> \<open>utcnow\<close>: the wall clock (\<^verbatim>\<open>time() * 1000\<close>, \<^verbatim>\<open>utcnow()\<close>) on entry,
    \<open>utcnow_later\<close>: the clock read after the first sleep of the handler;
  \<^item> \<open>node_available\<close>: \<^verbatim>\<open>self.node and self.node.is_available\<close>; \<open>is_connected\<close>: the
    property of the base class; \<open>guild_me\<close>: \<^verbatim>\<open>self.guild.me\<close>; \<open>me_voice\<close>: the id of
    \<^verbatim>\<open>self.guild.me.voice.channel\<close>, \<open>me_voice_later\<close> the same after a wait;
  \<^item> \<open>recommend seeds s\<close>: the recommendation and search calls that
    \<^verbatim>\<open>get_autoqueue_tracks\<close> makes for the seed \<open>s\<close>;
  \<^item> \<open>resolve_track\<close>, \<open>alt_search\<close>, \<open>get_tracks\<close>: the searches of \<^verbatim>\<open>process_next\<close>;
  \<^item> \<open>available_nodes\<close>: identifiers of the nodes with \<^verbatim>\<open>available and is_available\<close>;
  \<^item> \<open>node_retry_403\<close>, \<open>node_closing\<close>: \<^verbatim>\<open>self.node.retry_403\<close>, \<^verbatim>\<open>self.node._closing\<close>;
  \<^item> \<open>error_403_retries\<close> (seconds, default 7), \<open>error_403_additional_ms\<close> (default 430),
    \<open>provider_ytsearch\<close> (\<^verbatim>\<open>PARTIALTRACK_SEARCH_PROVIDER == "ytsearch"\<close>): configuration;
  \<^item> \<open>can_send\<close>: a text channel is set and the bot may send messages to it;
  \<^item> \<open>autoqueue_raises\<close>, \<open>stop_raises\<close>: whether \<^verbatim>\<open>get_autoqueue_tracks\<close> or
    \<^verbatim>\<open>self.stop()\<close> raises, the two failures \<^verbatim>\<open>process_next\<close> catches around them.

  Other calls to the chat platform and the node are taken not to raise.
\<close>

datatype seed_result = SeedTracks "track list" | SeedFallback "track list" | SeedFailed

datatype resolve_result = ResolveRaises | ResolveNothing | ResolveDone string int

datatype lookup_result = LookupMismatch | LookupRaises | LookupTracks "string list"

record env =
  utcnow :: int
  utcnow_later :: int
  node_available :: bool
  is_connected :: bool
  guild_me :: bool
  me_voice :: "nat option"
  me_voice_later :: "nat option"
  recommend :: "track list \<Rightarrow> track \<Rightarrow> seed_result"
  autoqueue_raises :: bool
  stop_raises :: bool
  resolve_track :: "track \<Rightarrow> resolve_result"
  alt_search :: "track \<Rightarrow> string list"
  get_tracks :: "track \<Rightarrow> lookup_result"
  available_nodes :: "string list"
  node_retry_403 :: bool
  node_closing :: bool
  error_403_retries :: int
  error_403_additional_ms :: int
  provider_ytsearch :: bool
  can_send :: bool

section \<open>Autoplay: \<^verbatim>\<open>get_autoqueue_tracks\<close>\<close>

text \<open>
  The sampling loop over \<^verbatim>\<open>self.played + self.queue_autoplay\<close>: it stops once five
  tracks are collected and skips tracks shorter than 90000 ms.
\<close>

fun sample_history :: "track list \<Rightarrow> track list \<Rightarrow> track list" where
  "sample_history [] tracks_search = tracks_search"
| "sample_history (t # ts) tracks_search =
     (if length tracks_search > 4 then tracks_search
      else if duration t < 90000 then sample_history ts tracks_search
      else sample_history ts (tracks_search @ [t]))"

text \<open>
  The loop over the seeds: the first seed whose search does not fail becomes \<^verbatim>\<open>track\<close>;
  the result is \<^verbatim>\<open>(track, tracks, tracks_ytsearch)\<close>.
\<close>

fun seed_loop :: "(track \<Rightarrow> seed_result) \<Rightarrow> track list
    \<Rightarrow> track option \<times> track list \<times> track list" where
  "seed_loop f [] = (None, [], [])"
| "seed_loop f (track_data # rest) =
     (case f track_data of
        SeedFailed \<Rightarrow> seed_loop f rest
      | SeedTracks ts \<Rightarrow> (Some track_data, ts, [])
      | SeedFallback ys \<Rightarrow> (Some track_data, [], ys))"

text \<open>
  The two filters on the results: results whose URI starts with the URI of a sampled
  seed are dropped; then streams, results shorter than 90000 ms and the result with the
  \<^verbatim>\<open>ytid\<close> of the seed \<^verbatim>\<open>track\<close> are dropped, and the kept ones are tagged with the seed.
\<close>

definition drop_seed_uris :: "track list \<Rightarrow> track list \<Rightarrow> track list" where
  "drop_seed_uris tracks_search tracks =
     filter (\<lambda>t. \<not> list_ex (\<lambda>u. startswith (uri t) (uri u)) tracks_search) tracks"

fun tracks_final :: "track \<Rightarrow> track list \<Rightarrow> track list" where
  "tracks_final track [] = []"
| "tracks_final track (t # ts) =
     (if is_stream t then tracks_final track ts
      else if duration t < 90000 then tracks_final track ts
      else if ytid track \<noteq> [] \<and> ytid track = ytid t then tracks_final track ts
      else t\<lparr>related := uri track\<rparr> # tracks_final track ts)"

definition popleft_autoplay :: "player \<Rightarrow> track option \<times> player" where
  "popleft_autoplay p =
     (case queue_autoplay p of
        [] \<Rightarrow> (None, p)
      | t # ts \<Rightarrow> (Some t, p\<lparr>queue_autoplay := ts\<rparr>))"

definition get_autoqueue_tracks :: "env \<Rightarrow> player \<Rightarrow> track option \<times> player" where
  "get_autoqueue_tracks e p =
     (case queue_autoplay p of
        t # ts \<Rightarrow> (Some t, p\<lparr>queue_autoplay := ts\<rparr>)
      | [] \<Rightarrow>
          if locked p then (None, p)
          else
            (let sampled = sample_history (deque_extend 20 (played p) (queue_autoplay p)) []
             in if sampled \<noteq> [] then
                  (let tracks_search = rev sampled;
                       p1 = p\<lparr>locked := True\<rparr>;
                       (track, found, tracks_ytsearch) =
                          seed_loop (recommend e tracks_search) tracks_search;
                       tracks = (if found = [] then rev tracks_ytsearch else found)
                   in if tracks = []
                      then (None, log_effect (Sleep 7000)
                                    (log_effect SendMessage (unlock p1)))
                      else
                        (let tracks' = drop_seed_uris tracks_search tracks;
                             p2 = (case track of
                                     Some tr \<Rightarrow>
                                       p1\<lparr>queue_autoplay :=
                                            deque_extend 30 (queue_autoplay p1)
                                              (tracks_final tr tracks')\<rparr>
                                   | None \<Rightarrow> p1)
                         in popleft_autoplay (unlock p2)))
                else popleft_autoplay (unlock p)))"

section \<open>Queue advance: \<^verbatim>\<open>process_next\<close>\<close>

text \<open>
  How an invocation of \<^verbatim>\<open>process_next\<close> ends: the \<^verbatim>\<open>return\<close> statement it reaches.
  \<open>Started\<close> is the end of the function body, after the play request.
\<close>

datatype outcome =
    Refused
  | NodeUnavailable
  | NotConnected
  | NoVoice
  | AutoqueueError
  | Idle
  | NodeHandoff
  | Started

text \<open>
  Taking the next track: the head of the queue, else an autoplay candidate, else the
  idle mode.  \<open>FetchAgain\<close> stands for \<^verbatim>\<open>await self.process_next(); return\<close>.
\<close>

datatype fetch = Fetched track bool player | FetchReturn outcome player | FetchAgain player

definition go_idle :: "env \<Rightarrow> player \<Rightarrow> fetch" where
  "go_idle e p =
     (if stop_raises e then FetchAgain p
      else FetchReturn Idle
             (log_effect StartIdle
                ((log_effect Stop p)\<lparr>last_track := None, idle_task := True\<rparr>)))"

definition fetch_track :: "env \<Rightarrow> bool \<Rightarrow> player \<Rightarrow> fetch" where
  "fetch_track e clear_autoqueue p =
     (case queue p of
        t # ts \<Rightarrow> Fetched t clear_autoqueue (p\<lparr>queue := ts\<rparr>)
      | [] \<Rightarrow>
          if autoplay_mode p \<or> keep_connected p then
            (if autoqueue_raises e then
               (let p1 = log_effect (Sleep 60000) (unlock p)
                in if current p1 = None \<and> (autoplay_mode p1 \<or> keep_connected p1)
                   then FetchAgain p1 else FetchReturn AutoqueueError p1)
             else
               (case get_autoqueue_tracks e p of
                  (Some t, p1) \<Rightarrow> Fetched t False p1
                | (None, p1) \<Rightarrow> go_idle e p1))
          else go_idle e p)"

text \<open>
  Making the track playable.  \<open>Ready t temp p\<close> carries the track and the
  \<^verbatim>\<open>temp_id\<close> passed to the play request; \<open>PrepAgain\<close> stands for
  \<^verbatim>\<open>await self.process_next(); return\<close>.
\<close>

datatype prep = Ready track string player | PrepReturn outcome player | PrepAgain player

definition resolve_partial :: "env \<Rightarrow> track \<Rightarrow> player \<Rightarrow> prep" where
  "resolve_partial e track p =
     (if is_partial track \<and> track_id track = [] then
        (case resolve_track e track of
           ResolveRaises \<Rightarrow> PrepAgain (unlock (log_effect SendMessage p))
         | ResolveNothing \<Rightarrow>
             PrepAgain (unlock (log_effect (Sleep 10000) (log_effect SendMessage p)))
         | ResolveDone i d \<Rightarrow>
             if i = [] then
               PrepAgain (unlock (log_effect (Sleep 10000) (log_effect SendMessage p)))
             else Ready (track\<lparr>track_id := i, duration := d\<rparr>) [] p)
      else Ready track [] p)"

definition find_playable :: "env \<Rightarrow> track \<Rightarrow> player \<Rightarrow> prep" where
  "find_playable e track p =
     (if \<not> native_yt p \<and> (sourceName track = ''youtube'' \<or> sourceNameOrig track = ''youtube'')
      then
        (if is_stream track \<or> duration track > 600000
         then PrepAgain (p\<lparr>failed_tracks := deque_append 30 (failed_tracks p) track\<rparr>)
         else if temp_id track \<noteq> [] then Ready track (temp_id track) p
         else
           (case alt_search e track of
              [] \<Rightarrow>
                PrepAgain
                  (unlock
                     (log_effect (Sleep 13000)
                        (log_effect InvokeNP
                           (p\<lparr>failed_tracks := deque_append 30 (failed_tracks p) track,
                              current := Some track\<rparr>))))
            | i # _ \<Rightarrow> Ready (track\<lparr>temp_id := i\<rparr>) i p))
      else if track_id track = [] then
        (case get_tracks e track of
           LookupMismatch \<Rightarrow>
             PrepReturn NodeHandoff (log_effect (WaitForNewNode (Some (node p))) p)
         | LookupRaises \<Rightarrow>
             PrepAgain
               (unlock
                  (log_effect (Sleep 7000)
                     (log_effect SendReport (log_effect SendMessage p))))
         | LookupTracks [] \<Rightarrow>
             PrepAgain (unlock (log_effect (Sleep 10000) (log_effect SendMessage p)))
         | LookupTracks (i # _) \<Rightarrow> Ready (track\<lparr>track_id := i\<rparr>) [] p)
      else Ready track [] p)"

definition prepare_track :: "env \<Rightarrow> track \<Rightarrow> player \<Rightarrow> prep" where
  "prepare_track e track p =
     (case resolve_partial e track p of
        Ready t _ p1 \<Rightarrow> find_playable e t p1
      | PrepReturn out p1 \<Rightarrow> PrepReturn out p1
      | PrepAgain p1 \<Rightarrow> PrepAgain p1)"

text \<open>The tail of \<^verbatim>\<open>process_next\<close>, from \<^verbatim>\<open>if clear_autoqueue:\<close> on.\<close>

definition start_track :: "env \<Rightarrow> int \<Rightarrow> bool \<Rightarrow> bool \<Rightarrow> track \<Rightarrow> string \<Rightarrow> player \<Rightarrow> player" where
  "start_track e start_position force_np clear_autoqueue track temp p =
     (let p1 = (if clear_autoqueue then p\<lparr>queue_autoplay := []\<rparr> else p);
          start = (if is_stream track then 0 else start_position);
          p2 = (unlock (p1\<lparr>last_track := Some track, is_previows_music := False\<rparr>))
                 \<lparr>current := Some track, last_update := 0, last_position := start,
                  paused := False\<rparr>
      in if auto_pause p2 then p2\<lparr>last_update := utcnow e, current := Some track\<rparr>
         else
           (let p3 = log_effect (Play track start temp) p2
            in if loop p3 \<noteq> LoopCurrent \<or> force_np
                  \<or> (\<not> controller_mode p3 \<and> track_loops track = 0)
               then log_effect InvokeNP (if start \<noteq> 0 then log_effect (Sleep 1000) p3 else p3)
               else p3))"

text \<open>
  One invocation of \<^verbatim>\<open>process_next\<close> up to its \<^verbatim>\<open>return\<close> or to a nested call
  \<^verbatim>\<open>await self.process_next()\<close> in tail position (\<open>Again\<close>).
\<close>

datatype step = Return outcome player | Again player

definition process_next_body :: "env \<Rightarrow> int \<Rightarrow> bool \<Rightarrow> bool \<Rightarrow> player \<Rightarrow> step" where
  "process_next_body e start_position force_np clear_autoqueue p =
     (if locked p \<or> is_closing p then Return Refused p
      else if \<not> node_available e
        then Return NodeUnavailable (log_effect (WaitForNewNode None) p)
      else if \<not> is_connected e then Return NotConnected p
      else if me_voice e = None \<and> last_channel p = None then Return NoVoice p
      else
        (let p1 = (case last_channel p of
                     Some c \<Rightarrow> if me_voice e = None then connect c p else p
                   | None \<Rightarrow> p);
             p2 = p1\<lparr>idle_task := False\<rparr>
         in case fetch_track e clear_autoqueue p2 of
              FetchReturn out p3 \<Rightarrow> Return out p3
            | FetchAgain p3 \<Rightarrow> Again p3
            | Fetched track ca p3 \<Rightarrow>
                (case prepare_track e track (p3\<lparr>locked := True\<rparr>) of
                   PrepReturn out p4 \<Rightarrow> Return out p4
                 | PrepAgain p4 \<Rightarrow> Again p4
                 | Ready t temp p4 \<Rightarrow>
                     Return Started (start_track e start_position force_np ca t temp p4))))"

text \<open>
  \<^verbatim>\<open>process_next\<close>.  Every invocation, the nested ones included, observes its own
  environment, so the function takes the list of the environments of the successive
  invocations; the nested calls pass the default arguments.  The result is \<open>None\<close> when
  the given environments are used up before an invocation returns.
\<close>

fun process_next :: "env list \<Rightarrow> int \<Rightarrow> bool \<Rightarrow> bool \<Rightarrow> player \<Rightarrow> (outcome \<times> player) option" where
  "process_next [] start_position force_np clear_autoqueue p = None"
| "process_next (e # es) start_position force_np clear_autoqueue p =
     (case process_next_body e start_position force_np clear_autoqueue p of
        Return out p' \<Rightarrow> Some (out, p')
      | Again p' \<Rightarrow> process_next es 0 False True p')"

section \<open>Events of the rendering node: \<^verbatim>\<open>hook\<close>\<close>

text \<open>
  The events with the attributes the handler reads: \<open>TrackEnd node reason track\<close>
  (the track by its URI), \<open>TrackStart node\<close>, \<open>TrackException node cause message error\<close>,
  \<open>WebsocketClosed code\<close>, \<open>TrackStuck\<close>, and any other object.  Nodes are compared by
  their identifier.
\<close>

datatype event =
    TrackEnd string string string
  | TrackStart string
  | TrackException string string string string
  | WebsocketClosed int
  | TrackStuck
  | OtherEvent

definition run_process_next :: "env list \<Rightarrow> int \<Rightarrow> player \<Rightarrow> player option" where
  "run_process_next es start_position p =
     map_option snd (process_next es start_position False True p)"

definition hook_track_end :: "env list \<Rightarrow> string \<Rightarrow> string \<Rightarrow> player \<Rightarrow> player option" where
  "hook_track_end es ev_node reason p =
     (if ev_node \<noteq> node p then Some p
      else if locked p \<or> auto_pause p then Some p
      else if reason = ''FINISHED''
        then run_process_next es 0 ((track_end p)\<lparr>update := False\<rparr>)
      else if reason = ''STOPPED''
        then (if length (queue p) = 0 then Some p
              else run_process_next es 0
                     ((track_end (p\<lparr>ignore_np_once := True\<rparr>))\<lparr>update := False\<rparr>))
      else Some p)"

definition hook_track_start :: "env \<Rightarrow> string \<Rightarrow> player \<Rightarrow> player option" where
  "hook_track_start e ev_node p =
     (if ev_node \<noteq> node p then Some p
      else
        (case current p of
           None \<Rightarrow> Some (log_effect Raise p)
         | Some c \<Rightarrow>
             (let p1 = (if \<not> autoplay c then p\<lparr>queue_autoplay := []\<rparr> else p)
              in if auto_pause p1 then Some p1
                 else if \<not> can_send e then Some p1
                 else if me_voice e = None \<and> me_voice_later e = None
                   then Some (p1\<lparr>update := True\<rparr>)
                 else Some (log_effect (Sleep 2000) p1))))"

text \<open>The prefixes of \<^verbatim>\<open>event.cause\<close> that select the recovery.\<close>

definition causes_network :: "string list" where
  "causes_network =
     [''java.net.SocketTimeoutException: Read timed out'',
      ''java.net.SocketException: Network is unreachable'']"

definition causes_not_available :: "string list" where
  "causes_not_available =
     [''com.sedmelluq.discord.lavaplayer.tools.FriendlyException: This video is not available'',
      ''com.sedmelluq.discord.lavaplayer.tools.FriendlyException: YouTube WebM streams are currently not supported.'']"

definition message_mismatch :: string where
  "message_mismatch = ''Video returned by YouTube isn't what was requested''"

definition error_429 :: string where
  "error_429 = ''This IP address has been blocked by YouTube (429)''"

definition causes_403 :: "string list" where
  "causes_403 =
     [''java.lang.RuntimeException: Not success status code: 403'',
      ''java.io.IOException: Invalid status code for video page response: 400'']"

definition causes_general :: "string list" where
  "causes_general =
     [''java.lang.IllegalStateException: Failed to get media URL: 2000: An error occurred while decoding track token'',
      ''java.lang.RuntimeException: Not success status code: 204'',
      ''java.net.SocketTimeoutException: Connect timed out'',
      ''java.lang.IllegalArgumentException: Invalid bitrate'',
      ''java.net.UnknownHostException:'',
      ''java.lang.IllegalStateException: Error from decoder'',
      ''java.lang.IllegalStateException: Current position is beyond this element'',
      ''com.sedmelluq.discord.lavaplayer.tools.io.PersistentHttpStream$PersistentHttpException: Not success status code: 403'']"

text \<open>
  The end of the exception handler: the optional message, the cooldown, the release
  of the lock and the advance.
\<close>

definition finish_exception :: "env \<Rightarrow> env list \<Rightarrow> bool \<Rightarrow> nat \<Rightarrow> int \<Rightarrow> player \<Rightarrow> player option" where
  "finish_exception e es has_embed cooldown start_position p =
     (let p1 = (if has_embed \<and> can_send e then log_effect SendMessage p else p)
      in run_process_next es start_position (unlock (log_effect (Sleep cooldown) p1)))"

text \<open>
  The handler from the second \<^verbatim>\<open>await send_report()\<close> on: the decode and timeout class
  with its per-node counter, the interrupted playback, and the remaining causes.
\<close>

definition recover_general :: "env \<Rightarrow> env list \<Rightarrow> string \<Rightarrow> track \<Rightarrow> player \<Rightarrow> player option" where
  "recover_general e es cause track p0 =
     (let p = log_effect SendReport p0
      in if startswith_any cause causes_general then
           (let r = (case retries_general_errors p of
                       None \<Rightarrow> \<lparr>counter_gen = 6, last_node_gen = node p, last_time_gen = utcnow e\<rparr>
                     | Some r \<Rightarrow> r);
                p1 = p\<lparr>retries_general_errors := Some r, queue := track # queue p\<rparr>
            in if counter_gen r < 1 \<and> node p1 = last_node_gen r
                  \<and> utcnow e - last_time_gen r < 180000
               then Some (log_effect (WaitForNewNode (Some (node p1))) p1)
               else
                 (let r1 = r\<lparr>last_time_gen := utcnow e\<rparr>;
                      r2 = (if last_node_gen r1 = node p1
                            then r1\<lparr>counter_gen := counter_gen r1 - 1\<rparr>
                            else \<lparr>counter_gen = 6, last_node_gen = node p1,
                                  last_time_gen = utcnow e\<rparr>);
                      p2 = p1\<lparr>retries_general_errors := Some r2\<rparr>
                  in finish_exception e es False 4000 (get_start_pos (utcnow e) p2 track 0) p2))
         else if cause = ''java.lang.InterruptedException''
           then Some (log_effect (WaitForNewNode None) (p\<lparr>queue := track # queue p\<rparr>))
         else if track_loops track = 0
           then finish_exception e es True 10000 0
                  (p\<lparr>failed_tracks := deque_append 30 (failed_tracks p) track\<rparr>)
         else if keep_connected p \<and> \<not> autoplay track \<and> length (queue p) > 15
           then finish_exception e es True 10000 0 (p\<lparr>queue := queue p @ [track]\<rparr>)
         else finish_exception e es True 10000 0 p)"

text \<open>
  The escalation of the rate-limit class: the counter is reset and, for a track served
  by YouTube, the player is moved to the first available node, or waits for one.
\<close>

definition escalate_403 :: "env \<Rightarrow> env list \<Rightarrow> string \<Rightarrow> track \<Rightarrow> player \<Rightarrow> player option" where
  "escalate_403 e es cause track p0 =
     (let p = p0\<lparr>retries_403 := Some \<lparr>last_time_403 = None, counter_403 = 0\<rparr>\<rparr>
      in if sourceName track = ''youtube''
            \<or> (provider_ytsearch e \<and> sourceName track = ''spotify'')
         then
           (let p1 = log_effect SendReport p
            in if node_closing e then Some p1
               else
                 (let p2 = (log_effect (Sleep 3000) p1)\<lparr>current := last_track p1\<rparr>
                  in case available_nodes e of
                       n # _ \<Rightarrow>
                         Some (unlock ((log_effect (ChangeNode n) p2)
                                         \<lparr>node := n, update := True\<rparr>))
                     | [] \<Rightarrow> Some (log_effect (WaitForNewNode None) p2)))
         else recover_general e es cause track p)"

definition recover_403 :: "env \<Rightarrow> env list \<Rightarrow> string \<Rightarrow> bool \<Rightarrow> track \<Rightarrow> player \<Rightarrow> player option" where
  "recover_403 e es cause error_403 track p =
     (if error_403 \<and> node_retry_403 e then
        (let r = (case retries_403 p of
                    None \<Rightarrow> \<lparr>last_time_403 = None, counter_403 = 0\<rparr>
                  | Some r \<Rightarrow> r)
         in if (case last_time_403 r of
                  None \<Rightarrow> True
                | Some lt \<Rightarrow> utcnow e - lt > 1000 * error_403_retries e)
            then
              (let p1 = p\<lparr>retries_403 := Some \<lparr>last_time_403 = Some (utcnow e), counter_403 = 0\<rparr>\<rparr>;
                   p2 = (if auto_pause p1 then p1\<lparr>update := True\<rparr>
                         else log_effect (Sleep 3000)
                                (log_effect
                                   (Play track
                                      (get_start_pos (utcnow e) p1 track (error_403_additional_ms e)) [])
                                   p1))
               in Some ((unlock p2)\<lparr>update := True\<rparr>))
            else if counter_403 r < 3 then
              (let r1 = r\<lparr>counter_403 := counter_403 r + 1\<rparr>;
                   p1 = log_effect (Sleep 3000) (p\<lparr>retries_403 := Some r1\<rparr>);
                   p2 = p1\<lparr>retries_403 := Some (r1\<lparr>last_time_403 := Some (utcnow_later e)\<rparr>)\<rparr>
               in if is_closing p2 then Some p2
                  else
                    (let p3 = unlock p2;
                         p4 = (if \<not> auto_pause p3 then p3\<lparr>update := True\<rparr>
                               else (log_effect
                                       (Play track
                                          (get_start_pos (utcnow_later e) p3 track
                                             (error_403_additional_ms e)) [])
                                       p3)\<lparr>update := True\<rparr>)
                     in Some (log_effect SendReport p4)))
            else escalate_403 e es cause track (p\<lparr>queue := queue p @ [track]\<rparr>))
      else escalate_403 e es cause track p)"

definition hook_track_exception ::
    "env \<Rightarrow> env list \<Rightarrow> string \<Rightarrow> string \<Rightarrow> string \<Rightarrow> string \<Rightarrow> player \<Rightarrow> player option" where
  "hook_track_exception e es ev_node cause message error p =
     (case (case current p of Some c \<Rightarrow> Some c | None \<Rightarrow> last_track p) of
        None \<Rightarrow> Some (log_effect Raise p)
      | Some track \<Rightarrow>
          if ev_node \<noteq> node p then Some (log_effect SendReport p)
          else if locked p then Some (log_effect SendReport (p\<lparr>update := True\<rparr>))
          else
            (let p1 = p\<lparr>locked := True, current := None\<rparr>;
                 network = startswith_any cause causes_network;
                 video_not_available =
                   (\<not> network \<and> (startswith_any cause causes_not_available
                                  \<or> message = message_mismatch))
             in if network \<or> video_not_available then
                  (let p2 = log_effect SendReport p1
                   in if video_not_available
                      then run_process_next es 0
                             (unlock (p2\<lparr>native_yt := False, current := None,
                                          queue := track # queue p2\<rparr>))
                      else Some (log_effect (WaitForNewNode None) p2))
                else
                  (let blocked = (error = error_429);
                       error_403 = (\<not> blocked \<and> startswith_any cause causes_403)
                   in if blocked \<or> error_403
                      then recover_403 e es cause error_403 track p1
                      else recover_general e es cause track p1)))"

definition reconnect_codes :: "int list" where
  "reconnect_codes = [4000, 1006, 1001, 4016, 4005, 4006]"

definition hook_websocket_closed :: "env \<Rightarrow> int \<Rightarrow> player \<Rightarrow> player option" where
  "hook_websocket_closed e code p =
     (if code = 1000 then Some p
      else if \<not> guild_me e then Some (log_effect Destroy p)
      else
        (let vc = (case last_channel p of Some c \<Rightarrow> Some c | None \<Rightarrow> me_voice e)
         in if \<not> (code = 4014 \<and> me_voice e \<noteq> None) \<and> vc = None
              then Some (log_effect Raise p)
            else if is_closing p then Some p
            else if code \<in> set reconnect_codes then
              (case (case me_voice e of Some c \<Rightarrow> Some c | None \<Rightarrow> last_channel p) of
                 None \<Rightarrow> Some (log_effect Raise p)
               | Some vc_id \<Rightarrow>
                   (let p1 = log_effect (Sleep 3000) p
                    in if is_closing p1 then Some p1
                       else Some (connect vc_id p1)))
            else if code = 4014 then
              (let p1 = log_effect (Sleep 1000) p
               in if me_voice_later e \<noteq> None then Some p1
                  else (case last_channel p1 of
                          None \<Rightarrow> Some (log_effect Raise p1)
                        | Some _ \<Rightarrow> Some (log_effect Destroy p1)))
            else Some p))"

definition hook_track_stuck :: "env list \<Rightarrow> player \<Rightarrow> player option" where
  "hook_track_stuck es p = run_process_next es 0 ((track_end p)\<lparr>update := False\<rparr>)"

text \<open>
  \<^verbatim>\<open>LavalinkPlayer.hook\<close>: \<open>e\<close> is what the handler itself observes, \<open>es\<close> what the
  invocations of \<^verbatim>\<open>process_next\<close> it makes observe.
\<close>

definition hook :: "env \<Rightarrow> env list \<Rightarrow> event \<Rightarrow> player \<Rightarrow> player option" where
  "hook e es ev p =
     (if is_closing p then Some p
      else
        (case ev of
           TrackEnd ev_node reason tr \<Rightarrow> hook_track_end es ev_node reason p
         | TrackStart ev_node \<Rightarrow> hook_track_start e ev_node p
         | TrackException ev_node cause message error \<Rightarrow>
             hook_track_exception e es ev_node cause message error p
         | WebsocketClosed code \<Rightarrow> hook_websocket_closed e code p
         | TrackStuck \<Rightarrow> hook_track_stuck es p
         | OtherEvent \<Rightarrow> Some p))"

section \<open>Successive deliveries and sample values\<close>

text \<open>
  The events of a session are handled one after the other, each handler running to its
  end before the next event is taken: \<open>deliver\<close> applies \<open>hook\<close> to a list of events, each
  with the environments its handling observes.
\<close>

fun deliver :: "(env \<times> env list \<times> event) list \<Rightarrow> player \<Rightarrow> player option" where
  "deliver [] p = Some p"
| "deliver ((e, es, ev) # rest) p =
     (case hook e es ev p of None \<Rightarrow> None | Some p' \<Rightarrow> deliver rest p')"

text \<open>
  An environment in which the node and the voice connection are available, the bot sits
  in voice channel 1, and every search comes back empty.
\<close>

definition env_ok :: env where
  "env_ok =
     \<lparr>utcnow = 0, utcnow_later = 3000, node_available = True, is_connected = True,
      guild_me = True, me_voice = Some 1, me_voice_later = Some 1,
      recommend = (\<lambda>seeds s. SeedFailed), autoqueue_raises = False, stop_raises = False,
      resolve_track = (\<lambda>t. ResolveNothing), alt_search = (\<lambda>t. []),
      get_tracks = (\<lambda>t. LookupTracks []), available_nodes = [''n1'', ''n2''],
      node_retry_403 = True, node_closing = False, error_403_retries = 7,
      error_403_additional_ms = 430, provider_ytsearch = False, can_send = True\<rparr>"

text \<open>Three resolved tracks of three minutes each.\<close>

definition track_A :: track where
  "track_A = (new_track ''a'' 180000)\<lparr>track_id := ''ida'', is_partial := False\<rparr>"

definition track_B :: track where
  "track_B = (new_track ''b'' 180000)\<lparr>track_id := ''idb'', is_partial := False\<rparr>"

definition track_C :: track where
  "track_C = (new_track ''c'' 180000)\<lparr>track_id := ''idc'', is_partial := False\<rparr>"

text \<open>The play history holds no track flagged as derived by autoplay.\<close>

definition history_clean :: "player \<Rightarrow> bool" where
  "history_clean p = (\<forall>t \<in> set (played p). \<not> autoplay t)"

text \<open>A session on node \<open>n1\<close> that has played A, is playing B and has C queued.\<close>

definition playing_B :: player where
  "playing_B =
     (new_player ''n1'')\<lparr>current := Some track_B, last_track := Some track_B,
                          queue := [track_C], played := [track_A]\<rparr>"

text \<open>
  \<open>resolved_from t t'\<close>: \<open>t'\<close> is the track \<open>t\<close> up to the entries that resolution
  fills in (the node handle, the temporary handle and the authoritative duration).
\<close>

definition resolved_from :: "track \<Rightarrow> track \<Rightarrow> bool" where
  "resolved_from t t' =
     (t' = t\<lparr>track_id := track_id t', temp_id := temp_id t', duration := duration t'\<rparr>)"






section \<open>Properties\<close>

subsection \<open>Bounded deques\<close>

lemma set_deque_extend: "set (deque_extend n xs ys) \<subseteq> set xs \<union> set ys"
proof -
  have "set (drop k (xs @ ys)) \<subseteq> set (xs @ ys)" for k
    by (rule set_drop_subset)
  then show ?thesis
    by (simp only: deque_extend_def Let_def set_append)
qed

lemma set_deque_append: "set (deque_append n xs x) \<subseteq> insert x (set xs)"
  unfolding deque_append_def using set_deque_extend [of n xs "[x]"] by auto

lemma length_deque_extend: "length (deque_extend n xs ys) \<le> n"
  unfolding deque_extend_def Let_def by simp

subsection \<open>Playback position\<close>

text \<open>
  Claim C2, as stated, fails: with 200000 ms elapsed on a track of 100000 ms the property
  \<^verbatim>\<open>position\<close> yields 0, where the clamp of the specification yields 100000.
\<close>

theorem position_clamp_counterexample:
  "position 200000 True ((new_player ''n1'')\<lparr>current := Some (new_track ''a'' 100000)\<rparr>)
     \<noteq> spec_position 200000 ((new_player ''n1'')\<lparr>current := Some (new_track ''a'' 100000)\<rparr>)
         (new_track ''a'' 100000)"
  by (simp add: position_def spec_position_def clamp_def new_player_def new_track_def)

text \<open>
  Claim C2, amended.  While a track is current, the player is playing and not paused by
  the user, the position is the elapsed value \<open>last_position + (now - last_update)\<close> as long
  as that does not exceed the duration, and 0 once it does.  It agrees with the clamp of
  the specification while the elapsed value lies between 0 and the duration, never
  exceeds a non-negative duration, and is non-decreasing between two reads of which the
  later one has not passed the duration.
\<close>

theorem position_playing:
  assumes "current p = Some c" and "\<not> (paused p \<and> \<not> auto_pause p)"
  shows "position now True p =
           (if last_position p + (now - last_update p) > duration c then 0
            else last_position p + (now - last_update p))
       \<and> (0 \<le> last_position p + (now - last_update p) \<and>
          last_position p + (now - last_update p) \<le> duration c \<longrightarrow>
            position now True p = spec_position now p c)
       \<and> (0 \<le> duration c \<longrightarrow> position now True p \<le> duration c)
       \<and> (now \<le> now' \<and> last_position p + (now' - last_update p) \<le> duration c \<longrightarrow>
            position now True p \<le> position now' True p)"
  using assms by (auto simp: position_def spec_position_def clamp_def Let_def)

theorem position_playing_witness:
  "position 30000 True ((new_player ''n1'')\<lparr>current := Some (new_track ''a'' 100000)\<rparr>) = 30000
   \<and> position 30000 True ((new_player ''n1'')\<lparr>current := Some (new_track ''a'' 100000)\<rparr>)
       = spec_position 30000 ((new_player ''n1'')\<lparr>current := Some (new_track ''a'' 100000)\<rparr>)
           (new_track ''a'' 100000)
   \<and> position 30000 True ((new_player ''n1'')\<lparr>current := Some (new_track ''a'' 100000)\<rparr>)
       \<le> duration (new_track ''a'' 100000)
   \<and> position 30000 True ((new_player ''n1'')\<lparr>current := Some (new_track ''a'' 100000)\<rparr>)
       \<le> position 40000 True ((new_player ''n1'')\<lparr>current := Some (new_track ''a'' 100000)\<rparr>)"
proof -
  let ?c = "new_track ''a'' 100000"
  let ?p = "(new_player ''n1'')\<lparr>current := Some ?c\<rparr>"
  have h1: "current ?p = Some ?c" by simp
  have h2: "\<not> (paused ?p \<and> \<not> auto_pause ?p)" by (simp add: new_player_def)
  have d: "duration ?c = 100000" "last_position ?p = 0" "last_update ?p = 0"
    by (simp_all add: new_player_def new_track_def)
  show ?thesis
    using position_playing [OF h1 h2, of 30000 40000]
    unfolding d by simp
qed

subsection \<open>A closing session\<close>

lemma process_next_body_refused:
  "locked p \<or> is_closing p \<Longrightarrow>
     process_next_body e start_position force_np clear_autoqueue p = Return Refused p"
  unfolding process_next_body_def by (cases "locked p") simp_all

lemma process_next_refused:
  "locked p \<or> is_closing p \<Longrightarrow>
     process_next (e # es) start_position force_np clear_autoqueue p = Some (Refused, p)"
  by (simp add: process_next_body_refused)

lemma hook_closing: "is_closing p \<Longrightarrow> hook e es ev p = Some p"
  by (simp add: hook_def)

lemma deliver_closing: "is_closing p \<Longrightarrow> deliver evs p = Some p"
  by (induction evs) (auto simp: hook_closing)

text \<open>
  Claim C9.  Once \<open>is_closing\<close> is set, the hook ignores every event, so any sequence of
  events delivered afterwards leaves the whole session state as it is (and thus still
  closing), and every call of \<^verbatim>\<open>process_next\<close> returns at its first test without touching
  \<open>current\<close> or the queue.
\<close>

theorem closing_accepts_no_work:
  assumes "is_closing p"
  shows "hook e es ev p = Some p
       \<and> deliver evs p = Some p
       \<and> process_next (e # es) start_position force_np clear_autoqueue p = Some (Refused, p)"
  using assms by (intro conjI hook_closing deliver_closing process_next_refused disjI2)

theorem closing_accepts_no_work_witness:
  "hook env_ok [env_ok] (TrackEnd ''n1'' ''FINISHED'' ''a'')
     ((new_player ''n1'')\<lparr>is_closing := True, queue := [track_A]\<rparr>)
     = Some ((new_player ''n1'')\<lparr>is_closing := True, queue := [track_A]\<rparr>)
   \<and> deliver [(env_ok, [env_ok], TrackStuck), (env_ok, [], WebsocketClosed 4006)]
       ((new_player ''n1'')\<lparr>is_closing := True, queue := [track_A]\<rparr>)
     = Some ((new_player ''n1'')\<lparr>is_closing := True, queue := [track_A]\<rparr>)
   \<and> process_next (env_ok # [env_ok]) 0 False True
       ((new_player ''n1'')\<lparr>is_closing := True, queue := [track_A]\<rparr>)
     = Some (Refused, (new_player ''n1'')\<lparr>is_closing := True, queue := [track_A]\<rparr>)"
proof -
  have h: "is_closing ((new_player ''n1'')\<lparr>is_closing := True, queue := [track_A]\<rparr>)"
    by simp
  show ?thesis
    by (rule closing_accepts_no_work [OF h])
qed

subsection \<open>The play history\<close>

lemma popleft_played: "popleft_autoplay p = (r, p') \<Longrightarrow> played p' = played p"
  by (auto simp: popleft_autoplay_def split: list.splits)

lemma autoqueue_played: "get_autoqueue_tracks e p = (r, p') \<Longrightarrow> played p' = played p"
  by (auto simp: get_autoqueue_tracks_def Let_def log_effect_def split: list.splits if_splits prod.splits option.splits dest!: popleft_played)

lemma fetch_played:
  "fetch_track e c p = Fetched t c' p' \<or> fetch_track e c p = FetchReturn out p' \<or> fetch_track e c p = FetchAgain p' \<Longrightarrow> played p' = played p"
  by (auto simp: fetch_track_def go_idle_def Let_def log_effect_def split: list.splits if_splits prod.splits option.splits dest!: autoqueue_played)

lemma prepare_played:
  "prepare_track e t p = Ready t' temp p' \<or> prepare_track e t p = PrepReturn out p' \<or> prepare_track e t p = PrepAgain p' \<Longrightarrow> played p' = played p"
  by (auto simp: prepare_track_def resolve_partial_def find_playable_def Let_def log_effect_def split: list.splits if_splits prep.splits resolve_result.splits lookup_result.splits)

lemma start_played: "played (start_track e sp f c t temp p) = played p"
  by (auto simp: start_track_def Let_def log_effect_def)


lemma body_played:
  "process_next_body e sp f c p = Return out p' \<or> process_next_body e sp f c p = Again p' \<Longrightarrow> played p' = played p"
  unfolding process_next_body_def Let_def
  by (auto simp: log_effect_def connect_def start_played split: if_splits fetch.splits prep.splits option.splits
      dest!: fetch_played [OF disjI1] fetch_played [OF disjI2, OF disjI1] fetch_played [OF disjI2, OF disjI2]
             prepare_played [OF disjI1] prepare_played [OF disjI2, OF disjI1] prepare_played [OF disjI2, OF disjI2])

lemma process_next_played:
  "process_next es sp f c p = Some (out, p') \<Longrightarrow> played p' = played p"
proof (induction es arbitrary: sp f c p)
  case Nil
  then show ?case by simp
next
  case (Cons e es)
  show ?case
  proof (cases "process_next_body e sp f c p")
    case (Return o1 p1)
    with Cons.prems have "p1 = p'" by simp
    with Return show ?thesis using body_played by blast
  next
    case (Again p1)
    with Cons.prems have "process_next es 0 False True p1 = Some (out, p')" by simp
    then have "played p' = played p1" by (rule Cons.IH)
    moreover have "played p1 = played p" using Again body_played by blast
    ultimately show ?thesis by simp
  qed
qed

lemma run_played: "run_process_next es sp p = Some p' \<Longrightarrow> played p' = played p"
  by (auto simp: run_process_next_def dest: process_next_played)

lemma track_end_played:
  "played (track_end p) =
     (case last_track p of
        None \<Rightarrow> played p
      | Some lt \<Rightarrow>
          if loop p \<noteq> LoopCurrent \<and> \<not> is_previows_music p \<and> track_loops lt = 0
             \<and> loop p \<noteq> LoopQueue \<and> \<not> autoplay lt
          then deque_append 20 (played p) lt else played p)"
  by (auto simp: track_end_def Let_def log_effect_def split: option.splits)

lemma track_end_clean: "history_clean p \<Longrightarrow> history_clean (track_end p)"
  unfolding history_clean_def track_end_played
  using set_deque_append [of 20 "played p"]
  by (auto split: option.splits)


lemma clean_cong: "played p' = played p \<Longrightarrow> history_clean p \<Longrightarrow> history_clean p'"
  by (simp add: history_clean_def)

lemma hook_track_end_clean:
  assumes "hook_track_end es n r p = Some p'" "history_clean p"
  shows "history_clean p'"
proof -
  have a: "history_clean ((track_end q)\<lparr>update := False\<rparr>)" if "history_clean q" for q
    using track_end_clean [OF that] by (simp add: history_clean_def)
  have b: "history_clean (p\<lparr>ignore_np_once := True\<rparr>)"
    using assms(2) by (simp add: history_clean_def)
  show ?thesis
    using assms(1) a [OF assms(2)] a [OF b] assms(2)
    by (auto simp: hook_track_end_def split: if_splits dest!: run_played intro: clean_cong)
qed

lemma hook_track_start_played: "hook_track_start e n p = Some p' \<Longrightarrow> played p' = played p"
  by (auto simp: hook_track_start_def Let_def log_effect_def split: if_splits option.splits)

lemma hook_websocket_played: "hook_websocket_closed e code p = Some p' \<Longrightarrow> played p' = played p"
  by (auto simp: hook_websocket_closed_def Let_def log_effect_def connect_def split: if_splits option.splits)

lemma finish_played: "finish_exception e es b cd sp p = Some p' \<Longrightarrow> played p' = played p"
  by (auto simp: finish_exception_def Let_def log_effect_def split: if_splits dest!: run_played)

lemma recover_general_played: "recover_general e es cause t p = Some p' \<Longrightarrow> played p' = played p"
  by (auto simp: recover_general_def Let_def log_effect_def split: if_splits option.splits dest!: finish_played)

lemma escalate_played: "escalate_403 e es cause t p = Some p' \<Longrightarrow> played p' = played p"
  by (auto simp: escalate_403_def Let_def log_effect_def split: if_splits option.splits list.splits dest!: recover_general_played)

lemma recover_403_played: "recover_403 e es cause b t p = Some p' \<Longrightarrow> played p' = played p"
  by (auto simp: recover_403_def Let_def log_effect_def split: if_splits option.splits dest!: escalate_played)

lemma hook_exception_played:
  "hook_track_exception e es n cause msg err p = Some p' \<Longrightarrow> played p' = played p"
  by (auto simp: hook_track_exception_def Let_def log_effect_def split: if_splits option.splits
      dest!: recover_403_played recover_general_played run_played)

lemma hook_clean:
  assumes "hook e es ev p = Some p'" "history_clean p"
  shows "history_clean p'"
proof (cases "is_closing p")
  case True
  with assms show ?thesis by (simp add: hook_def)
next
  case False
  show ?thesis
  proof (cases ev)
    case (TrackEnd n r tr)
    with assms False show ?thesis
      by (auto simp: hook_def dest: hook_track_end_clean)
  next
    case (TrackStart n)
    with assms False show ?thesis
      by (auto simp: hook_def dest!: hook_track_start_played intro: clean_cong)
  next
    case (TrackException n c m er)
    with assms False show ?thesis
      by (auto simp: hook_def dest!: hook_exception_played intro: clean_cong)
  next
    case (WebsocketClosed code)
    with assms False show ?thesis
      by (auto simp: hook_def dest!: hook_websocket_played intro: clean_cong)
  next
    case TrackStuck
    have "history_clean ((track_end p)\<lparr>update := False\<rparr>)"
      using track_end_clean [OF assms(2)] by (simp add: history_clean_def)
    with assms False TrackStuck show ?thesis
      by (auto simp: hook_def hook_track_stuck_def dest!: run_played intro: clean_cong)
  next
    case OtherEvent
    with assms False show ?thesis by (simp add: hook_def)
  qed
qed

lemma deliver_clean:
  "deliver evs p = Some p' \<Longrightarrow> history_clean p \<Longrightarrow> history_clean p'"
proof (induction evs arbitrary: p)
  case Nil
  then show ?case by simp
next
  case (Cons x evs)
  obtain e es ev where x: "x = (e, es, ev)" by (cases x) auto
  from Cons.prems(1) obtain q where q: "hook e es ev p = Some q" "deliver evs q = Some p'"
    by (auto simp: x split: option.splits)
  from hook_clean [OF q(1) Cons.prems(2)] have "history_clean q" .
  with Cons.IH q(2) show ?case by blast
qed

text \<open>
  Claim C10.  \<^verbatim>\<open>track_end\<close> appends the finished track to the history exactly when no
  loop reinsertion applies (loop mode off, previous-track flag unset, loop counter zero)
  and the track is not flagged as autoplay; no other operation adds to the history.  So a
  history free of autoplay tracks, as that of a new player is, stays free of them under
  \<^verbatim>\<open>track_end\<close>, under every event and under every sequence of events.
\<close>

theorem history_never_autoplay:
  assumes "history_clean p"
  shows "played (track_end p) =
           (case last_track p of
              None \<Rightarrow> played p
            | Some lt \<Rightarrow>
                if loop p \<noteq> LoopCurrent \<and> \<not> is_previows_music p \<and> track_loops lt = 0
                   \<and> loop p \<noteq> LoopQueue \<and> \<not> autoplay lt
                then deque_append 20 (played p) lt else played p)
       \<and> history_clean (new_player n)
       \<and> history_clean (track_end p)
       \<and> (\<forall>p'. hook e es ev p = Some p' \<longrightarrow> history_clean p')
       \<and> (\<forall>p'. deliver evs p = Some p' \<longrightarrow> history_clean p')"
  using assms track_end_played [of p] track_end_clean [of p]
  by (auto simp: hook_clean deliver_clean) (simp add: history_clean_def new_player_def)

theorem history_never_autoplay_witness:
  "history_clean ((new_player ''n1'')\<lparr>last_track := Some (track_A\<lparr>autoplay := True\<rparr>),
                                       played := [track_B]\<rparr>)
   \<and> played (track_end ((new_player ''n1'')\<lparr>last_track := Some (track_A\<lparr>autoplay := True\<rparr>),
                                              played := [track_B]\<rparr>)) = [track_B]
   \<and> map_option history_clean
       (hook env_ok [env_ok] (TrackEnd ''n1'' ''FINISHED'' ''a'')
          ((new_player ''n1'')\<lparr>last_track := Some (track_A\<lparr>autoplay := True\<rparr>),
                                played := [track_B]\<rparr>)) = Some True"
proof -
  let ?p = "(new_player ''n1'')\<lparr>last_track := Some (track_A\<lparr>autoplay := True\<rparr>),
                                played := [track_B]\<rparr>"
  let ?ev = "TrackEnd ''n1'' ''FINISHED'' ''a''"
  have h: "history_clean ?p"
    by (simp add: history_clean_def track_B_def new_track_def)
  have r: "map_option played (hook env_ok [env_ok] ?ev ?p) = Some [track_B]"
    by (simp add: hook_def hook_track_end_def run_process_next_def track_end_def
        process_next_body_def fetch_track_def go_idle_def log_effect_def new_player_def
        track_A_def new_track_def env_ok_def Let_def)
  then obtain q where q: "hook env_ok [env_ok] ?ev ?p = Some q" by auto
  from history_never_autoplay [OF h, of "''n1''" env_ok "[env_ok]" ?ev "[]"]
  have t: "played (track_end ?p) = [track_B]" "history_clean q"
    using q by (simp_all add: new_player_def track_A_def new_track_def)
  show ?thesis using h t q by simp
qed

subsection \<open>Reinsertion at the end of a track\<close>

lemma resolved_from_refl: "resolved_from t t"
  by (simp add: resolved_from_def)

lemma resolved_from_fields:
  "resolved_from t t' \<Longrightarrow> uri t' = uri t \<and> track_loops t' = track_loops t \<and> autoplay t' = autoplay t"
  unfolding resolved_from_def by (metis track.select_convs(3,10,11) track.surjective track.update_convs(1,7,8))

lemma resolve_partial_ready:
  "resolve_partial e t p = Ready t' temp p' \<Longrightarrow> resolved_from t t' \<and> p' = p"
  by (auto simp: resolve_partial_def resolved_from_def split: if_splits resolve_result.splits)

lemma find_playable_ready:
  "find_playable e t p = Ready t' temp p' \<Longrightarrow> resolved_from t t' \<and> p' = p"
  by (auto simp: find_playable_def resolved_from_def
      split: if_splits lookup_result.splits list.splits)

lemma resolved_from_trans:
  "resolved_from t t' \<Longrightarrow> resolved_from t' t'' \<Longrightarrow> resolved_from t t''"
  unfolding resolved_from_def by (cases t, cases t', cases t'') simp

lemma prepare_track_ready:
  "prepare_track e t p = Ready t' temp p' \<Longrightarrow> resolved_from t t' \<and> p' = p"
  by (auto simp: prepare_track_def split: prep.splits
      dest!: resolve_partial_ready find_playable_ready intro: resolved_from_trans)

lemma start_track_fields:
  "queue (start_track e sp f c t temp p) = queue p
   \<and> loop (start_track e sp f c t temp p) = loop p
   \<and> last_track (start_track e sp f c t temp p) = Some t
   \<and> current (start_track e sp f c t temp p) = Some t
   \<and> \<not> is_previows_music (start_track e sp f c t temp p)
   \<and> \<not> locked (start_track e sp f c t temp p)"
  by (simp add: start_track_def Let_def log_effect_def)

lemma fetch_track_head:
  "queue p = t # ts \<Longrightarrow> fetch_track e c p = Fetched t c (p\<lparr>queue := ts\<rparr>)"
  by (simp add: fetch_track_def)

lemma prepare_track_return:
  "prepare_track e t p = PrepReturn out p' \<Longrightarrow>
     out = NodeHandoff \<and> p' = log_effect (WaitForNewNode (Some (node p))) p"
  by (auto simp: prepare_track_def resolve_partial_def find_playable_def
      split: prep.splits if_splits resolve_result.splits lookup_result.splits list.splits)

lemma body_started_head:
  assumes "process_next_body e sp f c p = Return Started p1" "queue p = t # ts"
  shows "\<exists>t'. resolved_from t t' \<and> queue p1 = ts \<and> last_track p1 = Some t'
              \<and> current p1 = Some t' \<and> loop p1 = loop p
              \<and> \<not> is_previows_music p1 \<and> \<not> locked p1"
proof -
  let ?p2 = "(case last_channel p of
                Some ch \<Rightarrow> if me_voice e = None then connect ch p else p
              | None \<Rightarrow> p)\<lparr>idle_task := False\<rparr>"
  have q2: "queue ?p2 = t # ts" and l2: "loop ?p2 = loop p"
    using assms(2) by (auto simp: log_effect_def connect_def split: option.splits)
  have f: "fetch_track e c ?p2 = Fetched t c (?p2\<lparr>queue := ts\<rparr>)"
    by (rule fetch_track_head [OF q2])
  from assms(1) obtain t' temp p4 where
      r: "prepare_track e t (?p2\<lparr>queue := ts, locked := True\<rparr>) = Ready t' temp p4"
      and p1: "p1 = start_track e sp f c t' temp p4"
    unfolding process_next_body_def Let_def f
    by (auto split: if_splits prep.splits dest: prepare_track_return)
  from prepare_track_ready [OF r]
  have rf: "resolved_from t t'" and p4: "p4 = ?p2\<lparr>queue := ts, locked := True\<rparr>" by auto
  have "queue p4 = ts" "loop p4 = loop p" using p4 l2 by simp_all
  with rf p1 start_track_fields [of e sp f c t' temp p4] show ?thesis by auto
qed

lemma process_next_single_started:
  "process_next [e] sp f c p = Some (Started, p1) \<Longrightarrow>
     process_next_body e sp f c p = Return Started p1"
  by (cases "process_next_body e sp f c p") auto

lemma track_end_queue_append:
  assumes "last_track p = Some t" "loop p = LoopQueue" "\<not> is_previows_music p"
    "track_loops t = 0"
  shows "queue (track_end p) = queue p @ [t]"
  using assms by (simp add: track_end_def Let_def log_effect_def)

lemma track_end_loop: "loop (track_end p) = loop p"
  by (simp add: track_end_def Let_def log_effect_def split: option.splits)

lemma loop_queue_round:
  assumes "loop q = LoopQueue" "queue q = [A, B]" "track_loops A = 0" "track_loops B = 0"
    and s1: "process_next [e1] sp f c q = Some (Started, q1)"
    and s2: "process_next [e2] sp' f' c' (track_end q1) = Some (Started, q2)"
  shows "\<exists>A' B'. queue (track_end q2) = [A', B'] \<and> resolved_from A A' \<and> resolved_from B B'"
proof -
  from body_started_head [OF process_next_single_started [OF s1] assms(2)]
  obtain A' where a: "resolved_from A A'" "queue q1 = [B]" "last_track q1 = Some A'"
      "loop q1 = loop q" "\<not> is_previows_music q1" by auto
  have la: "track_loops A' = 0" using resolved_from_fields [OF a(1)] assms(3) by simp
  have e1: "queue (track_end q1) = [B, A']"
    using track_end_queue_append [OF a(3) _ a(5) la] a(2,4) assms(1) by simp
  from body_started_head [OF process_next_single_started [OF s2] e1]
  obtain B' where b: "resolved_from B B'" "queue q2 = [A']" "last_track q2 = Some B'"
      "loop q2 = loop (track_end q1)" "\<not> is_previows_music q2" by auto
  have lb: "track_loops B' = 0" using resolved_from_fields [OF b(1)] assms(4) by simp
  have lq: "loop q2 = LoopQueue" using b(4) track_end_loop a(4) assms(1) by simp
  have "queue (track_end q2) = [A', B']"
    using track_end_queue_append [OF b(3) lq b(5) lb] b(2) by simp
  with a(1) b(1) show ?thesis by blast
qed

subsection \<open>Closed voice transport\<close>

text \<open>
  Claim C8, as stated, fails.  On a close code outside the listed ones, here 4009, the
  handler falls through to the end of \<^verbatim>\<open>hook\<close>: the state is unchanged, so no node
  rotation is started and the bound node stays the same.  On a listed code, here 4006,
  the session does not reconnect when the bot is no longer a member of the guild (the
  player is destroyed) or when no voice channel is known (the handler fails).
\<close>

theorem websocket_other_code_counterexample:
  "hook env_ok [env_ok] (WebsocketClosed 4009) playing_B = Some playing_B
   \<and> hook (env_ok\<lparr>guild_me := False\<rparr>) [env_ok] (WebsocketClosed 4006) playing_B
       = Some (log_effect Destroy playing_B)
   \<and> hook (env_ok\<lparr>me_voice := None\<rparr>) [env_ok] (WebsocketClosed 4006) playing_B
       = Some (log_effect Raise playing_B)"
  by (simp add: hook_def hook_websocket_closed_def reconnect_codes_def playing_B_def
      new_player_def env_ok_def Let_def)

lemma reconnect_codes_other:
  "code \<in> set reconnect_codes \<Longrightarrow> code \<noteq> 1000 \<and> code \<noteq> 4014"
  by (auto simp: reconnect_codes_def)

lemma websocket_benign: "hook e es (WebsocketClosed 1000) p = Some p"
  by (simp add: hook_def hook_websocket_closed_def)

lemma websocket_no_member:
  assumes "\<not> is_closing p" "\<not> guild_me e" "code \<noteq> 1000"
  shows "hook e es (WebsocketClosed code) p = Some (log_effect Destroy p)"
  using assms by (simp add: hook_def hook_websocket_closed_def)

lemma websocket_no_channel:
  assumes "\<not> is_closing p" "guild_me e" "code \<noteq> 1000" "me_voice e = None"
    "last_channel p = None"
  shows "hook e es (WebsocketClosed code) p = Some (log_effect Raise p)"
  using assms by (simp add: hook_def hook_websocket_closed_def)

lemma websocket_reconnect_voice:
  assumes "\<not> is_closing p" "guild_me e" "code \<in> set reconnect_codes" "me_voice e = Some c"
  shows "hook e es (WebsocketClosed code) p = Some (connect c (log_effect (Sleep 3000) p))"
  using assms reconnect_codes_other [OF assms(3)]
  by (simp add: hook_def hook_websocket_closed_def Let_def log_effect_def split: option.splits)

lemma websocket_reconnect_last:
  assumes "\<not> is_closing p" "guild_me e" "code \<in> set reconnect_codes" "me_voice e = None"
    "last_channel p = Some c"
  shows "hook e es (WebsocketClosed code) p = Some (connect c (log_effect (Sleep 3000) p))"
  using assms reconnect_codes_other [OF assms(3)]
  by (simp add: hook_def hook_websocket_closed_def Let_def log_effect_def)

lemma websocket_4014_stay:
  assumes "\<not> is_closing p" "guild_me e" "me_voice e \<noteq> None \<or> last_channel p \<noteq> None"
    "me_voice_later e \<noteq> None"
  shows "hook e es (WebsocketClosed 4014) p = Some (log_effect (Sleep 1000) p)"
proof -
  have "(4014::int) \<notin> set reconnect_codes" by (simp add: reconnect_codes_def)
  with assms show ?thesis
    by (cases "last_channel p"; cases "me_voice e")
       (simp_all add: hook_def hook_websocket_closed_def Let_def log_effect_def)
qed

lemma websocket_4014_destroy:
  assumes "\<not> is_closing p" "guild_me e" "last_channel p = Some c" "me_voice_later e = None"
  shows "hook e es (WebsocketClosed 4014) p
           = Some (log_effect Destroy (log_effect (Sleep 1000) p))"
proof -
  have "(4014::int) \<notin> set reconnect_codes" by (simp add: reconnect_codes_def)
  with assms show ?thesis
    by (simp add: hook_def hook_websocket_closed_def Let_def log_effect_def)
qed

lemma websocket_4014_raise:
  assumes "\<not> is_closing p" "guild_me e" "last_channel p = None" "me_voice e \<noteq> None"
    "me_voice_later e = None"
  shows "hook e es (WebsocketClosed 4014) p
           = Some (log_effect Raise (log_effect (Sleep 1000) p))"
proof -
  have "(4014::int) \<notin> set reconnect_codes" by (simp add: reconnect_codes_def)
  with assms show ?thesis
    by (cases "me_voice e")
       (simp_all add: hook_def hook_websocket_closed_def Let_def log_effect_def)
qed

lemma websocket_other:
  assumes "\<not> is_closing p" "guild_me e" "me_voice e \<noteq> None \<or> last_channel p \<noteq> None"
    "code \<noteq> 1000" "code \<noteq> 4014" "code \<notin> set reconnect_codes"
  shows "hook e es (WebsocketClosed code) p = Some p"
  using assms
  by (cases "last_channel p"; cases "me_voice e")
     (simp_all add: hook_def hook_websocket_closed_def Let_def)

text \<open>
  Claim C8, amended.  For a session that is not closing, a close of the voice transport
  is handled as follows.  Code 1000 is silent and changes nothing.  With any other code:
  if the bot is no longer a member of the guild the player is destroyed; if it is a
  member but no voice channel is known (no last channel and no voice state) the handler
  fails.  Otherwise a code among 4000, 1006, 1001, 4016, 4005, 4006 makes the session wait
  three seconds and reconnect its voice link to the channel the bot is in, or else to the
  last channel, and that channel becomes the last channel; code 4014 makes it wait one
  second, after which nothing more happens if the bot is again in a voice channel, the
  player is destroyed if it is not and a last channel is recorded, and the handler fails
  if it is not and no last channel is recorded; any other code changes nothing, so no
  node rotation is started and the bound node stays.
\<close>

theorem websocket_closed_codes:
  assumes "\<not> is_closing p"
  shows "hook e es (WebsocketClosed 1000) p = Some p
       \<and> (\<not> guild_me e \<and> code \<noteq> 1000 \<longrightarrow>
            hook e es (WebsocketClosed code) p = Some (log_effect Destroy p))
       \<and> (guild_me e \<and> code \<noteq> 1000 \<and> me_voice e = None \<and> last_channel p = None \<longrightarrow>
            hook e es (WebsocketClosed code) p = Some (log_effect Raise p))
       \<and> (guild_me e \<and> code \<in> set reconnect_codes \<and> me_voice e = Some c \<longrightarrow>
            hook e es (WebsocketClosed code) p
              = Some (connect c (log_effect (Sleep 3000) p)))
       \<and> (guild_me e \<and> code \<in> set reconnect_codes \<and> me_voice e = None
            \<and> last_channel p = Some c \<longrightarrow>
            hook e es (WebsocketClosed code) p
              = Some (connect c (log_effect (Sleep 3000) p)))
       \<and> last_channel (connect c (log_effect (Sleep 3000) p)) = Some c
       \<and> node (connect c (log_effect (Sleep 3000) p)) = node p
       \<and> (guild_me e \<and> (me_voice e \<noteq> None \<or> last_channel p \<noteq> None)
            \<and> me_voice_later e \<noteq> None \<longrightarrow>
            hook e es (WebsocketClosed 4014) p = Some (log_effect (Sleep 1000) p))
       \<and> (guild_me e \<and> last_channel p = Some c \<and> me_voice_later e = None \<longrightarrow>
            hook e es (WebsocketClosed 4014) p
              = Some (log_effect Destroy (log_effect (Sleep 1000) p)))
       \<and> (guild_me e \<and> last_channel p = None \<and> me_voice e \<noteq> None
            \<and> me_voice_later e = None \<longrightarrow>
            hook e es (WebsocketClosed 4014) p
              = Some (log_effect Raise (log_effect (Sleep 1000) p)))
       \<and> (guild_me e \<and> (me_voice e \<noteq> None \<or> last_channel p \<noteq> None)
            \<and> code \<noteq> 1000 \<and> code \<noteq> 4014 \<and> code \<notin> set reconnect_codes \<longrightarrow>
            hook e es (WebsocketClosed code) p = Some p)"
proof (intro conjI impI)
  show "hook e es (WebsocketClosed 1000) p = Some p"
    by (rule websocket_benign)
next
  assume "\<not> guild_me e \<and> code \<noteq> 1000"
  with assms show "hook e es (WebsocketClosed code) p = Some (log_effect Destroy p)"
    by (intro websocket_no_member) simp_all
next
  assume "guild_me e \<and> code \<noteq> 1000 \<and> me_voice e = None \<and> last_channel p = None"
  with assms show "hook e es (WebsocketClosed code) p = Some (log_effect Raise p)"
    by (intro websocket_no_channel) simp_all
next
  assume "guild_me e \<and> code \<in> set reconnect_codes \<and> me_voice e = Some c"
  with assms show "hook e es (WebsocketClosed code) p
                     = Some (connect c (log_effect (Sleep 3000) p))"
    by (intro websocket_reconnect_voice) simp_all
next
  assume "guild_me e \<and> code \<in> set reconnect_codes \<and> me_voice e = None
            \<and> last_channel p = Some c"
  with assms show "hook e es (WebsocketClosed code) p
                     = Some (connect c (log_effect (Sleep 3000) p))"
    by (intro websocket_reconnect_last) simp_all
next
  show "last_channel (connect c (log_effect (Sleep 3000) p)) = Some c"
    by (simp add: connect_def log_effect_def)
next
  show "node (connect c (log_effect (Sleep 3000) p)) = node p"
    by (simp add: connect_def log_effect_def)
next
  assume "guild_me e \<and> (me_voice e \<noteq> None \<or> last_channel p \<noteq> None)
            \<and> me_voice_later e \<noteq> None"
  with assms show "hook e es (WebsocketClosed 4014) p = Some (log_effect (Sleep 1000) p)"
    by (intro websocket_4014_stay) simp_all
next
  assume "guild_me e \<and> last_channel p = Some c \<and> me_voice_later e = None"
  with assms show "hook e es (WebsocketClosed 4014) p
                     = Some (log_effect Destroy (log_effect (Sleep 1000) p))"
    by (intro websocket_4014_destroy) simp_all
next
  assume "guild_me e \<and> last_channel p = None \<and> me_voice e \<noteq> None
            \<and> me_voice_later e = None"
  with assms show "hook e es (WebsocketClosed 4014) p
                     = Some (log_effect Raise (log_effect (Sleep 1000) p))"
    by (intro websocket_4014_raise) simp_all
next
  assume "guild_me e \<and> (me_voice e \<noteq> None \<or> last_channel p \<noteq> None)
            \<and> code \<noteq> 1000 \<and> code \<noteq> 4014 \<and> code \<notin> set reconnect_codes"
  with assms show "hook e es (WebsocketClosed code) p = Some p"
    by (intro websocket_other) simp_all
qed

theorem websocket_closed_codes_witness:
  "hook env_ok [] (WebsocketClosed 1000) playing_B = Some playing_B
   \<and> hook (env_ok\<lparr>guild_me := False\<rparr>) [] (WebsocketClosed 4006) playing_B
       = Some (log_effect Destroy playing_B)
   \<and> hook (env_ok\<lparr>me_voice := None\<rparr>) [] (WebsocketClosed 4006) playing_B
       = Some (log_effect Raise playing_B)
   \<and> hook env_ok [] (WebsocketClosed 4006) playing_B
       = Some (connect 1 (log_effect (Sleep 3000) playing_B))
   \<and> hook (env_ok\<lparr>me_voice := None\<rparr>) [] (WebsocketClosed 4006)
         (playing_B\<lparr>last_channel := Some 1\<rparr>)
       = Some (connect 1 (log_effect (Sleep 3000) (playing_B\<lparr>last_channel := Some 1\<rparr>)))
   \<and> hook env_ok [] (WebsocketClosed 4014) playing_B
       = Some (log_effect (Sleep 1000) playing_B)
   \<and> hook (env_ok\<lparr>me_voice := None, me_voice_later := None\<rparr>) [] (WebsocketClosed 4014)
         (playing_B\<lparr>last_channel := Some 1\<rparr>)
       = Some (log_effect Destroy (log_effect (Sleep 1000) (playing_B\<lparr>last_channel := Some 1\<rparr>)))
   \<and> hook (env_ok\<lparr>me_voice_later := None\<rparr>) [] (WebsocketClosed 4014) playing_B
       = Some (log_effect Raise (log_effect (Sleep 1000) playing_B))
   \<and> hook env_ok [] (WebsocketClosed 4009) playing_B = Some playing_B"
proof -
  have h1: "\<not> is_closing playing_B"
    by (simp add: playing_B_def new_player_def)
  have h2: "\<not> is_closing (playing_B\<lparr>last_channel := Some 1\<rparr>)"
    by (simp add: playing_B_def new_player_def)
  have n1: "last_channel playing_B = None"
    by (simp add: playing_B_def new_player_def)
  note t1 = websocket_closed_codes [OF h1, of env_ok "[]" 4006 1]
  note t2 = websocket_closed_codes [OF h1, of env_ok "[]" 4009 1]
  note t3 = websocket_closed_codes [OF h2, of "env_ok\<lparr>me_voice := None\<rparr>" "[]" 4006 1]
  note t4 = websocket_closed_codes
              [OF h2, of "env_ok\<lparr>me_voice := None, me_voice_later := None\<rparr>" "[]" 4014 1]
  note t5 = websocket_closed_codes [OF h1, of "env_ok\<lparr>guild_me := False\<rparr>" "[]" 4006 1]
  note t6 = websocket_closed_codes [OF h1, of "env_ok\<lparr>me_voice := None\<rparr>" "[]" 4006 1]
  note t7 = websocket_closed_codes [OF h1, of "env_ok\<lparr>me_voice_later := None\<rparr>" "[]" 4014 1]
  note c2 = conjunct2
  have a1: "hook env_ok [] (WebsocketClosed 1000) playing_B = Some playing_B"
    by (rule t1 [THEN conjunct1])
  have a2: "hook (env_ok\<lparr>guild_me := False\<rparr>) [] (WebsocketClosed 4006) playing_B
              = Some (log_effect Destroy playing_B)"
    by (rule t5 [THEN c2, THEN conjunct1, THEN mp]) (simp add: env_ok_def)
  have a3: "hook (env_ok\<lparr>me_voice := None\<rparr>) [] (WebsocketClosed 4006) playing_B
              = Some (log_effect Raise playing_B)"
    by (rule t6 [THEN c2, THEN c2, THEN conjunct1, THEN mp]) (simp add: env_ok_def n1)
  have a4: "hook env_ok [] (WebsocketClosed 4006) playing_B
              = Some (connect 1 (log_effect (Sleep 3000) playing_B))"
    by (rule t1 [THEN c2, THEN c2, THEN c2, THEN conjunct1, THEN mp])
       (simp add: env_ok_def reconnect_codes_def)
  have a5: "hook (env_ok\<lparr>me_voice := None\<rparr>) [] (WebsocketClosed 4006)
              (playing_B\<lparr>last_channel := Some 1\<rparr>)
            = Some (connect 1 (log_effect (Sleep 3000) (playing_B\<lparr>last_channel := Some 1\<rparr>)))"
    by (rule t3 [THEN c2, THEN c2, THEN c2, THEN c2, THEN conjunct1, THEN mp])
       (simp add: env_ok_def reconnect_codes_def)
  have a6: "hook env_ok [] (WebsocketClosed 4014) playing_B
              = Some (log_effect (Sleep 1000) playing_B)"
    by (rule t1 [THEN c2, THEN c2, THEN c2, THEN c2, THEN c2, THEN c2, THEN c2,
                 THEN conjunct1, THEN mp])
       (simp add: env_ok_def)
  have a7: "hook (env_ok\<lparr>me_voice := None, me_voice_later := None\<rparr>) [] (WebsocketClosed 4014)
              (playing_B\<lparr>last_channel := Some 1\<rparr>)
            = Some (log_effect Destroy
                     (log_effect (Sleep 1000) (playing_B\<lparr>last_channel := Some 1\<rparr>)))"
    by (rule t4 [THEN c2, THEN c2, THEN c2, THEN c2, THEN c2, THEN c2, THEN c2, THEN c2,
                 THEN conjunct1, THEN mp])
       (simp add: env_ok_def)
  have a8: "hook (env_ok\<lparr>me_voice_later := None\<rparr>) [] (WebsocketClosed 4014) playing_B
              = Some (log_effect Raise (log_effect (Sleep 1000) playing_B))"
    by (rule t7 [THEN c2, THEN c2, THEN c2, THEN c2, THEN c2, THEN c2, THEN c2, THEN c2, THEN c2,
                 THEN conjunct1, THEN mp])
       (simp add: env_ok_def n1)
  have a9: "hook env_ok [] (WebsocketClosed 4009) playing_B = Some playing_B"
    by (rule t2 [THEN c2, THEN c2, THEN c2, THEN c2, THEN c2, THEN c2, THEN c2, THEN c2, THEN c2,
                 THEN c2, THEN mp])
       (simp add: env_ok_def reconnect_codes_def)
  show ?thesis
    by (intro conjI a1 a2 a3 a4 a5 a6 a7 a8 a9)
qed

subsection \<open>The end-of-track event\<close>














subsection \<open>The queue after the end of a track\<close>

lemma track_end_queue:
  "queue (track_end p) =
     (case last_track p of
        None \<Rightarrow> queue p
      | Some T \<Rightarrow>
          if loop p = LoopCurrent then T # queue p
          else if is_previows_music p then deque_insert 1 T (queue p)
          else if track_loops T \<noteq> 0 then T\<lparr>track_loops := track_loops T - 1\<rparr> # queue p
          else if loop p = LoopQueue then queue p @ [T]
          else queue p)"
  by (simp add: track_end_def Let_def log_effect_def deque_insert_def split: option.splits)

text \<open>
  Claim C3, as stated, fails.  With loop mode repeat-queue and the previous-track flag
  set, the finished track C is inserted at index 1 of the queue, not appended at the
  tail.  With a negative loop counter the counter is decremented and the track is
  reinserted at the head, although the counter is not positive.  With loop mode
  repeat-queue, queue \<open>[A, B]\<close> and loop counter 1 on A, two advances that each start
  the head of the queue, each followed by the end of the track, leave the queue \<open>[B, A]\<close>.
\<close>

theorem track_end_previous_counterexample:
  "queue (track_end ((new_player ''n1'')\<lparr>loop := LoopQueue, is_previows_music := True,
                                           last_track := Some track_C,
                                           queue := [track_A, track_B]\<rparr>))
     = [track_A, track_C, track_B]
   \<and> [track_A, track_C, track_B] \<noteq> [track_A, track_B] @ [track_C]
   \<and> queue (track_end ((new_player ''n1'')\<lparr>loop := LoopQueue,
                                           last_track := Some (track_C\<lparr>track_loops := - 1\<rparr>),
                                           queue := [track_A, track_B]\<rparr>))
     = [track_C\<lparr>track_loops := - 2\<rparr>, track_A, track_B]
   \<and> map_option (queue \<circ> track_end \<circ> snd)
        (process_next [env_ok] 0 False True
          (track_end (snd (the (process_next [env_ok] 0 False True
             ((new_player ''n1'')\<lparr>loop := LoopQueue,
                                   queue := [track_A\<lparr>track_loops := 1\<rparr>, track_B]\<rparr>))))))
     = Some [track_B, track_A]"
  by (simp add: track_end_def deque_insert_def log_effect_def new_player_def
      track_A_def track_B_def track_C_def new_track_def Let_def
      process_next_body_def fetch_track_def prepare_track_def resolve_partial_def
      find_playable_def start_track_def env_ok_def)

text \<open>
  Claim C3, amended.  When a track T finishes (\<^verbatim>\<open>track_end\<close> with last track T): with
  loop mode repeat-current T is reinserted at the head of the queue; else with the
  previous-track flag set T is inserted at index 1 (after the head, or alone into an empty
  queue) and its counter is left as it is; else with a loop counter other than zero the
  counter is decremented by exactly one and T is reinserted at the head; else with loop
  mode repeat-queue T is appended at the tail; else the queue is left as it is, as it is
  when there is no last track.  In every case the other queued tracks keep their places
  relative to each other.  Consequently, with loop mode repeat-queue, a queue \<open>[A, B]\<close> of
  tracks with counter zero, and two advances that each start the head of the queue, each
  followed by the end of the track, the queue is \<open>[A, B]\<close> again in the same order, the
  tracks being the same up to what resolution filled in.
\<close>

theorem track_end_reinsertion:
  "(last_track p = Some T \<and> loop p = LoopCurrent \<longrightarrow> queue (track_end p) = T # queue p)
   \<and> (last_track p = Some T \<and> loop p \<noteq> LoopCurrent \<and> is_previows_music p \<longrightarrow>
        queue (track_end p) = take 1 (queue p) @ T # drop 1 (queue p)
        \<and> last_track (track_end p) = Some T)
   \<and> (last_track p = Some T \<and> loop p \<noteq> LoopCurrent \<and> \<not> is_previows_music p
        \<and> track_loops T \<noteq> 0 \<longrightarrow>
        queue (track_end p) = T\<lparr>track_loops := track_loops T - 1\<rparr> # queue p)
   \<and> (last_track p = Some T \<and> loop p \<noteq> LoopCurrent \<and> \<not> is_previows_music p
        \<and> track_loops T = 0 \<and> loop p = LoopQueue \<longrightarrow>
        queue (track_end p) = queue p @ [T])
   \<and> (last_track p = Some T \<and> loop p \<noteq> LoopCurrent \<and> \<not> is_previows_music p
        \<and> track_loops T = 0 \<and> loop p \<noteq> LoopQueue \<longrightarrow>
        queue (track_end p) = queue p)
   \<and> (last_track p = None \<longrightarrow> queue (track_end p) = queue p)
   \<and> (loop q = LoopQueue \<and> queue q = [A, B] \<and> track_loops A = 0 \<and> track_loops B = 0
        \<and> process_next [e1] sp f c q = Some (Started, q1)
        \<and> process_next [e2] sp' f' c' (track_end q1) = Some (Started, q2) \<longrightarrow>
        (\<exists>A' B'. queue (track_end q2) = [A', B']
                 \<and> resolved_from A A' \<and> resolved_from B B'))"
proof (intro conjI impI)
  assume "last_track p = Some T \<and> loop p = LoopCurrent"
  then show "queue (track_end p) = T # queue p"
    by (simp add: track_end_queue)
next
  assume "last_track p = Some T \<and> loop p \<noteq> LoopCurrent \<and> is_previows_music p"
  then show "queue (track_end p) = take 1 (queue p) @ T # drop 1 (queue p)"
    by (simp add: track_end_queue deque_insert_def)
next
  assume "last_track p = Some T \<and> loop p \<noteq> LoopCurrent \<and> is_previows_music p"
  then show "last_track (track_end p) = Some T"
    by (simp add: track_end_def Let_def log_effect_def)
next
  assume "last_track p = Some T \<and> loop p \<noteq> LoopCurrent \<and> \<not> is_previows_music p
        \<and> track_loops T \<noteq> 0"
  then show "queue (track_end p) = T\<lparr>track_loops := track_loops T - 1\<rparr> # queue p"
    by (simp add: track_end_queue)
next
  assume "last_track p = Some T \<and> loop p \<noteq> LoopCurrent \<and> \<not> is_previows_music p
        \<and> track_loops T = 0 \<and> loop p = LoopQueue"
  then show "queue (track_end p) = queue p @ [T]"
    by (simp add: track_end_queue)
next
  assume "last_track p = Some T \<and> loop p \<noteq> LoopCurrent \<and> \<not> is_previows_music p
        \<and> track_loops T = 0 \<and> loop p \<noteq> LoopQueue"
  then show "queue (track_end p) = queue p"
    by (simp add: track_end_queue)
next
  assume "last_track p = None"
  then show "queue (track_end p) = queue p"
    by (simp add: track_end_queue)
next
  assume "loop q = LoopQueue \<and> queue q = [A, B] \<and> track_loops A = 0 \<and> track_loops B = 0
            \<and> process_next [e1] sp f c q = Some (Started, q1)
            \<and> process_next [e2] sp' f' c' (track_end q1) = Some (Started, q2)"
  then show "\<exists>A' B'. queue (track_end q2) = [A', B']
                     \<and> resolved_from A A' \<and> resolved_from B B'"
    by (intro loop_queue_round [of q A B e1 sp f c q1 e2 sp' f' c' q2]) simp_all
qed

theorem track_end_reinsertion_witness:
  "queue (track_end ((new_player ''n1'')\<lparr>last_track := Some track_C, loop := LoopCurrent,
                                           queue := [track_A, track_B]\<rparr>))
     = [track_C, track_A, track_B]
   \<and> queue (track_end ((new_player ''n1'')\<lparr>last_track := Some track_C,
                                             is_previows_music := True,
                                             queue := [track_A, track_B]\<rparr>))
     = [track_A, track_C, track_B]
   \<and> queue (track_end ((new_player ''n1'')\<lparr>last_track := Some (track_C\<lparr>track_loops := 2\<rparr>),
                                             queue := [track_A, track_B]\<rparr>))
     = [track_C\<lparr>track_loops := 1\<rparr>, track_A, track_B]
   \<and> queue (track_end ((new_player ''n1'')\<lparr>last_track := Some track_C, loop := LoopQueue,
                                             queue := [track_A, track_B]\<rparr>))
     = [track_A, track_B, track_C]
   \<and> queue (track_end ((new_player ''n1'')\<lparr>last_track := Some track_C,
                                             queue := [track_A, track_B]\<rparr>))
     = [track_A, track_B]
   \<and> queue (track_end ((new_player ''n1'')\<lparr>queue := [track_A, track_B]\<rparr>))
     = [track_A, track_B]
   \<and> (\<exists>A' B'.
        queue (track_end (snd (the (process_next [env_ok] 0 False True
                 (track_end (snd (the (process_next [env_ok] 0 False True
                    ((new_player ''n1'')\<lparr>loop := LoopQueue,
                                          queue := [track_A, track_B]\<rparr>)))))))))
          = [A', B']
        \<and> resolved_from track_A A' \<and> resolved_from track_B B')"
proof -
  let ?C2 = "track_C\<lparr>track_loops := 2\<rparr>"
  let ?P1 = "(new_player ''n1'')\<lparr>last_track := Some track_C, loop := LoopCurrent,
                                  queue := [track_A, track_B]\<rparr>"
  let ?P2 = "(new_player ''n1'')\<lparr>last_track := Some track_C, is_previows_music := True,
                                  queue := [track_A, track_B]\<rparr>"
  let ?P3 = "(new_player ''n1'')\<lparr>last_track := Some ?C2, queue := [track_A, track_B]\<rparr>"
  let ?P4 = "(new_player ''n1'')\<lparr>last_track := Some track_C, loop := LoopQueue,
                                  queue := [track_A, track_B]\<rparr>"
  let ?P5 = "(new_player ''n1'')\<lparr>last_track := Some track_C, queue := [track_A, track_B]\<rparr>"
  let ?P6 = "(new_player ''n1'')\<lparr>queue := [track_A, track_B]\<rparr>"
  let ?Q = "(new_player ''n1'')\<lparr>loop := LoopQueue, queue := [track_A, track_B]\<rparr>"
  let ?q1 = "snd (the (process_next [env_ok] 0 False True ?Q))"
  let ?q2 = "snd (the (process_next [env_ok] 0 False True (track_end ?q1)))"
  note defs = process_next_body_def fetch_track_def prepare_track_def resolve_partial_def
    find_playable_def start_track_def track_end_def log_effect_def new_player_def
    track_A_def track_B_def track_C_def new_track_def env_ok_def Let_def
  note c2 = conjunct2
  have m1: "map_option fst (process_next [env_ok] 0 False True ?Q) = Some Started"
    by (simp add: defs)
  have s1: "process_next [env_ok] 0 False True ?Q = Some (Started, ?q1)"
    using m1 by (cases "process_next [env_ok] 0 False True ?Q") auto
  have m2: "map_option fst (process_next [env_ok] 0 False True (track_end ?q1)) = Some Started"
    by (simp add: defs)
  have s2: "process_next [env_ok] 0 False True (track_end ?q1) = Some (Started, ?q2)"
    using m2 by (cases "process_next [env_ok] 0 False True (track_end ?q1)") auto
  have g: "loop ?Q = LoopQueue" "queue ?Q = [track_A, track_B]"
    "track_loops track_A = 0" "track_loops track_B = 0"
    by (simp_all add: track_A_def track_B_def new_track_def)
  have a1: "queue (track_end ?P1) = [track_C, track_A, track_B]"
    using track_end_reinsertion [of ?P1 track_C, THEN conjunct1]
    by (simp add: new_player_def)
  have a2: "queue (track_end ?P2) = [track_A, track_C, track_B]"
    using track_end_reinsertion [of ?P2 track_C, THEN c2, THEN conjunct1]
    by (simp add: new_player_def)
  have a3: "queue (track_end ?P3) = [track_C\<lparr>track_loops := 1\<rparr>, track_A, track_B]"
    using track_end_reinsertion [of ?P3 ?C2, THEN c2, THEN c2, THEN conjunct1]
    by (simp add: new_player_def)
  have a4: "queue (track_end ?P4) = [track_A, track_B, track_C]"
    using track_end_reinsertion [of ?P4 track_C, THEN c2, THEN c2, THEN c2, THEN conjunct1]
    by (simp add: new_player_def track_C_def new_track_def)
  have a5: "queue (track_end ?P5) = [track_A, track_B]"
    using track_end_reinsertion [of ?P5 track_C, THEN c2, THEN c2, THEN c2, THEN c2,
                                 THEN conjunct1]
    by (simp add: new_player_def track_C_def new_track_def)
  have a6: "queue (track_end ?P6) = [track_A, track_B]"
    using track_end_reinsertion [of ?P6, THEN c2, THEN c2, THEN c2, THEN c2, THEN c2,
                                 THEN conjunct1]
    by (simp add: new_player_def)
  have a7: "\<exists>A' B'. queue (track_end ?q2) = [A', B']
             \<and> resolved_from track_A A' \<and> resolved_from track_B B'"
    by (rule track_end_reinsertion
              [of _ _ ?Q track_A track_B env_ok 0 False True ?q1 env_ok 0 False True ?q2,
               THEN c2, THEN c2, THEN c2, THEN c2, THEN c2, THEN c2, THEN mp])
       (intro conjI g s1 s2)
  show ?thesis
    by (intro conjI a1 a2 a3 a4 a5 a6 a7)
qed

subsection \<open>The lock around the queue advance\<close>

















subsection \<open>Recovery from decode and timeout errors\<close>















end
